theory Spec2Isabelle
  imports Complex_Main
begin

section \<open>Values and the runtime\<close>

text \<open>
  The application is a Flask program over an SQLite file (\<^verbatim>\<open>src/app.py\<close>). Its request
  handlers are embedded as functions from the database before the request to a response
  and the database after it.

  Numbers: Python's \<^verbatim>\<open>float\<close> and SQLite's \<^verbatim>\<open>REAL\<close> are read as exact rationals
  (\<^typ>\<open>rat\<close>); rounding, infinities and NaN are outside this development. Dates and
  timestamps are the strings the program passes around.
\<close>

datatype py_error =
    ValueError
  | TypeError
  | ZeroDivisionError
  | OverflowError
  | IntegrityError
  | InterfaceError

text \<open>
  What the handlers take from the language runtime and the clock:
  \<^item> \<open>py_float s\<close> is Python's \<^verbatim>\<open>float(s)\<close> on a \<^verbatim>\<open>str\<close>, \<open>None\<close> where it raises
    \<^verbatim>\<open>ValueError\<close>;
  \<^item> \<open>sql_int_text\<close> and \<open>sql_real_text\<close> are the text SQLite makes of a bound integer
    or float where a column of TEXT affinity stores it or is compared with it
    (\<open>None\<close>: the integer does not fit 64 bits and \<^verbatim>\<open>sqlite3\<close> raises
    \<^verbatim>\<open>OverflowError\<close>);
  \<^item> \<open>now\<close> is \<^verbatim>\<open>datetime.now()\<close> and \<open>today\<close> is \<^verbatim>\<open>datetime.now().date()\<close>.
  Every theorem below holds for every runtime.
\<close>

record runtime =
  py_float :: "string \<Rightarrow> rat option"
  sql_int_text :: "int \<Rightarrow> string option"
  sql_real_text :: "rat \<Rightarrow> string"
  now :: string
  today :: string

definition bind_err :: "py_error + 'a \<Rightarrow> ('a \<Rightarrow> py_error + 'b) \<Rightarrow> py_error + 'b" where
  "bind_err m f = (case m of Inl e \<Rightarrow> Inl e | Inr x \<Rightarrow> f x)"

text \<open>Python's \<^verbatim>\<open>a / b\<close> on floats: it raises on a zero divisor.\<close>

definition py_truediv :: "rat \<Rightarrow> rat \<Rightarrow> py_error + rat" where
  "py_truediv a b = (if b = 0 then Inl ZeroDivisionError else Inr (a / b))"

section \<open>The schema\<close>

text \<open>
  One record per table of \<^verbatim>\<open>src/database/setup.py\<close>,
  \<^verbatim>\<open>src/database/add_planting_tables.py\<close> and
  \<^verbatim>\<open>src/database/init_crop_storage.py\<close>; a table is the list of its rows in rowid
  order. A nullable column that the handlers read or write as NULL is an \<open>option\<close>. Columns
  that the modelled handlers only copy from the request into the row (free text such as
  buyer or operator names) are left out. The numeric columns of \<^verbatim>\<open>planting_records\<close>,
  \<^verbatim>\<open>field_maintenance\<close> and \<^verbatim>\<open>crop_storage\<close> hold numbers: every statement of the
  program that writes them binds a float.
\<close>

record field_row =
  field_id :: string
  field_name :: string
  size_hectares :: rat

record crop_season_row =
  season_id :: nat
  season_field_id :: string
  crop_year :: int
  season_crop_type :: string

record field_operation_row =
  operation_id :: nat
  operation_field_id :: string
  operation_type :: string

record weather_event_row =
  event_id :: nat
  event_field_id :: string
  weather_type :: string

record planting_row =
  planting_id :: nat
  planting_field_id :: string
  crop_type :: string
  planting_date :: string
  planted_area_ha :: rat
  seed_cost :: rat
  fertilizer_cost :: rat
  lime_cost :: rat
  labor_cost :: rat
  equipment_cost :: rat
  fuel_cost :: rat
  other_costs :: rat
  total_planting_cost :: rat
  cost_per_hectare :: rat
  status :: string

record maintenance_row =
  maintenance_id :: nat
  maintenance_field_id :: string
  maintenance_planting_id :: "nat option"
  total_cost :: rat

record harvest_row =
  harvest_id :: nat
  harvest_planting_id :: nat
  harvest_field_id :: string
  harvest_date :: string
  total_yield_tonnes :: rat
  yield_per_hectare :: rat
  harvested_area_ha :: rat
  moisture_percent :: "rat option"
  test_weight :: "rat option"
  protein_percent :: "rat option"
  damage_percent :: rat
  market_price_per_tonne :: rat
  price_premium :: rat
  harvest_labor_cost :: rat
  harvest_equipment_cost :: rat
  harvest_fuel_cost :: rat
  transport_cost :: rat
  drying_cost :: rat
  storage_cost :: rat
  other_harvest_costs :: rat
  total_harvest_cost :: rat
  gross_revenue :: rat
  total_costs :: rat
  net_profit :: rat
  profit_per_hectare :: rat
  roi_percent :: rat
  break_even_price :: rat

record storage_row =
  storage_id :: nat
  crop_name :: string
  quantity_stored :: rat
  storage_capacity :: rat
  current_market_price :: rat
  sale_location :: "string option"
  last_price_update :: "string option"
  storage_notes :: "string option"
  updated_date :: "string option"

record location_row =
  location_id :: nat
  location_name :: string

record price_row =
  price_id :: nat
  price_crop_name :: string
  price :: rat
  price_sale_location :: "string option"
  price_date :: string

record database =
  fields_table :: "field_row list"
  crop_seasons :: "crop_season_row list"
  field_operations :: "field_operation_row list"
  weather_events :: "weather_event_row list"
  planting_records :: "planting_row list"
  field_maintenance :: "maintenance_row list"
  harvest_records :: "harvest_row list"
  crop_storage :: "storage_row list"
  sale_locations :: "location_row list"
  price_history :: "price_row list"

text \<open>
  \<^verbatim>\<open>get_db_connection\<close> returns \<^verbatim>\<open>None\<close> when the database file does not exist: the
  store a handler runs against is a \<^typ>\<open>database option\<close>. The connection never switches
  \<^verbatim>\<open>PRAGMA foreign_keys\<close> on, so no statement is refused for a foreign key.
\<close>

type_synonym store = "database option"

text \<open>\<^verbatim>\<open>fetchone()\<close>: the first row of a result, or \<^verbatim>\<open>None\<close>.\<close>

definition fetchone :: "'a list \<Rightarrow> 'a option" where
  "fetchone rows = (case rows of [] \<Rightarrow> None | r # _ \<Rightarrow> Some r)"

text \<open>The rowid of a row inserted into a table that only grows: one more than the largest.\<close>

definition next_rowid :: "nat list \<Rightarrow> nat" where
  "next_rowid ids = Suc (fold max ids 0)"

section \<open>Deleting a field\<close>

datatype delete_field_response =
    DF_no_connection
  | DF_field_not_found
  | DF_deleted string

text \<open>
  \<^verbatim>\<open>delete_field\<close> (app.py, lines 309-345): four DELETE statements, on
  \<^verbatim>\<open>crop_seasons\<close>, \<^verbatim>\<open>field_operations\<close>, \<^verbatim>\<open>weather_events\<close> and \<^verbatim>\<open>fields\<close>.
\<close>

definition delete_field :: "store \<Rightarrow> string \<Rightarrow> delete_field_response \<times> store" where
  "delete_field conn fid =
     (case conn of
        None \<Rightarrow> (DF_no_connection, None)
      | Some db \<Rightarrow>
          (case fetchone (filter (\<lambda>f. field_id f = fid) (fields_table db)) of
             None \<Rightarrow> (DF_field_not_found, Some db)
           | Some field \<Rightarrow>
               (let db1 = db\<lparr>crop_seasons :=
                            filter (\<lambda>r. season_field_id r \<noteq> fid) (crop_seasons db)\<rparr>;
                    db2 = db1\<lparr>field_operations :=
                            filter (\<lambda>r. operation_field_id r \<noteq> fid) (field_operations db1)\<rparr>;
                    db3 = db2\<lparr>weather_events :=
                            filter (\<lambda>r. event_field_id r \<noteq> fid) (weather_events db2)\<rparr>;
                    db4 = db3\<lparr>fields_table := filter (\<lambda>f. field_id f \<noteq> fid) (fields_table db3)\<rparr>
                in (DF_deleted (field_name field), Some db4))))"

text \<open>The rows of any table that hold a reference to a field.\<close>

definition references_to :: "database \<Rightarrow> string \<Rightarrow> nat" where
  "references_to db fid =
     length (filter (\<lambda>r. season_field_id r = fid) (crop_seasons db))
   + length (filter (\<lambda>r. operation_field_id r = fid) (field_operations db))
   + length (filter (\<lambda>r. event_field_id r = fid) (weather_events db))
   + length (filter (\<lambda>r. planting_field_id r = fid) (planting_records db))
   + length (filter (\<lambda>r. maintenance_field_id r = fid) (field_maintenance db))
   + length (filter (\<lambda>r. harvest_field_id r = fid) (harvest_records db))"

section \<open>Requests\<close>

text \<open>
  A JSON value as \<^verbatim>\<open>request.json\<close> delivers it: \<^verbatim>\<open>None\<close>, a \<^verbatim>\<open>bool\<close>, an \<^verbatim>\<open>int\<close>, a
  \<^verbatim>\<open>float\<close>, a \<^verbatim>\<open>str\<close>, a \<^verbatim>\<open>list\<close> or a \<^verbatim>\<open>dict\<close> (the contents of the last two never
  matter to the handlers). A JSON body and a submitted form are dictionaries.
\<close>

datatype json = JNull | JBool bool | JInt int | JFloat rat | JStr string | JArr | JObj

type_synonym json_object = "string \<rightharpoonup> json"

type_synonym form = "string \<rightharpoonup> string"

datatype http_method = GET | POST

text \<open>\<^verbatim>\<open>request.json.get(k)\<close>: \<^verbatim>\<open>None\<close> for a missing key.\<close>

definition json_get :: "json_object \<Rightarrow> string \<Rightarrow> json" where
  "json_get body k = (case body k of None \<Rightarrow> JNull | Some v \<Rightarrow> v)"

text \<open>
  \<^verbatim>\<open>float(v)\<close> on a JSON value: \<^verbatim>\<open>TypeError\<close> on \<^verbatim>\<open>None\<close>, a list or a dict,
  \<^verbatim>\<open>ValueError\<close> on a string that is no number. The range of a float is not modelled.
\<close>

definition float_of_json :: "runtime \<Rightarrow> json \<Rightarrow> py_error + rat" where
  "float_of_json rt v =
     (case v of
        JNull \<Rightarrow> Inl TypeError
      | JBool b \<Rightarrow> Inr (if b then 1 else 0)
      | JInt i \<Rightarrow> Inr (of_int i)
      | JFloat x \<Rightarrow> Inr x
      | JStr s \<Rightarrow> (case py_float rt s of None \<Rightarrow> Inl ValueError | Some x \<Rightarrow> Inr x)
      | JArr \<Rightarrow> Inl TypeError
      | JObj \<Rightarrow> Inl TypeError)"

text \<open>
  A JSON value bound to a \<^verbatim>\<open>?\<close> that is stored in, or compared with, a TEXT column:
  \<^verbatim>\<open>None\<close> is NULL, a string is itself, a number becomes its text, and \<^verbatim>\<open>sqlite3\<close>
  refuses a list or a dict.
\<close>

definition bind_text :: "runtime \<Rightarrow> json \<Rightarrow> py_error + string option" where
  "bind_text rt v =
     (case v of
        JNull \<Rightarrow> Inr None
      | JBool b \<Rightarrow>
          (case sql_int_text rt (if b then 1 else 0) of
             None \<Rightarrow> Inl OverflowError | Some t \<Rightarrow> Inr (Some t))
      | JInt i \<Rightarrow>
          (case sql_int_text rt i of None \<Rightarrow> Inl OverflowError | Some t \<Rightarrow> Inr (Some t))
      | JFloat x \<Rightarrow> Inr (Some (sql_real_text rt x))
      | JStr s \<Rightarrow> Inr (Some s)
      | JArr \<Rightarrow> Inl InterfaceError
      | JObj \<Rightarrow> Inl InterfaceError)"

text \<open>\<^verbatim>\<open>float(request.form.get(k, d))\<close>; \<open>d = None\<close> is the call without a default.\<close>

definition form_float :: "runtime \<Rightarrow> form \<Rightarrow> string \<Rightarrow> rat option \<Rightarrow> py_error + rat" where
  "form_float rt frm k d =
     (case frm k of
        Some s \<Rightarrow> (case py_float rt s of None \<Rightarrow> Inl ValueError | Some x \<Rightarrow> Inr x)
      | None \<Rightarrow> (case d of None \<Rightarrow> Inl TypeError | Some x \<Rightarrow> Inr x))"

text \<open>\<^verbatim>\<open>float(request.form.get(k)) if request.form.get(k) else None\<close>.\<close>

definition form_float_opt :: "runtime \<Rightarrow> form \<Rightarrow> string \<Rightarrow> py_error + rat option" where
  "form_float_opt rt frm k =
     (case frm k of
        None \<Rightarrow> Inr None
      | Some s \<Rightarrow>
          if s = [] then Inr None
          else (case py_float rt s of None \<Rightarrow> Inl ValueError | Some x \<Rightarrow> Inr (Some x)))"

text \<open>\<^verbatim>\<open>request.form.get(k, '')\<close>.\<close>

definition form_text :: "form \<Rightarrow> string \<Rightarrow> string" where
  "form_text frm k = (case frm k of None \<Rightarrow> [] | Some s \<Rightarrow> s)"

section \<open>Crop storage\<close>

datatype json_error =
    Invalid_field
  | Database_connection_failed
  | Invalid_numeric_value
  | Raised py_error

datatype 'a json_response = Success 'a | Failure json_error

text \<open>The rows a statement with \<^verbatim>\<open>WHERE crop_name = ?\<close> selects; NULL selects none.\<close>

definition crop_is :: "string option \<Rightarrow> storage_row \<Rightarrow> bool" where
  "crop_is k r = (case k of None \<Rightarrow> False | Some c \<Rightarrow> crop_name r = c)"


definition allowed_fields :: "string list" where
  "allowed_fields =
     [''quantity_stored'', ''storage_capacity'', ''current_market_price'',
      ''sale_location'', ''notes'']"

text \<open>Python's \<^verbatim>\<open>v in names\<close> for a JSON value and a list of strings.\<close>

definition json_in :: "json \<Rightarrow> string list \<Rightarrow> bool" where
  "json_in v names = (case v of JStr s \<Rightarrow> s \<in> set names | _ \<Rightarrow> False)"

text \<open>\<^verbatim>\<open>UPDATE crop_storage SET {field_name} = ?\<close> on one row.\<close>

definition set_column :: "string \<Rightarrow> rat \<Rightarrow> string option \<Rightarrow> storage_row \<Rightarrow> storage_row" where
  "set_column f num txt r =
     (if f = ''quantity_stored'' then r\<lparr>quantity_stored := num\<rparr>
      else if f = ''storage_capacity'' then r\<lparr>storage_capacity := num\<rparr>
      else if f = ''current_market_price'' then r\<lparr>current_market_price := num\<rparr>
      else if f = ''sale_location'' then r\<lparr>sale_location := txt\<rparr>
      else r\<lparr>storage_notes := txt\<rparr>)"

text \<open>SQLite's \<^verbatim>\<open>ROUND(x, 1)\<close>: to one decimal, halves away from zero.\<close>

definition sql_round1 :: "rat \<Rightarrow> rat" where
  "sql_round1 x =
     (if 0 \<le> x then of_int \<lfloor>x * 10 + 1 / 2\<rfloor> / 10 else - (of_int \<lfloor>- x * 10 + 1 / 2\<rfloor> / 10))"

text \<open>
  The price-history statement of the two storage editors: a row is appended when the crop
  has a storage row and its price differs from the new one.
\<close>

definition record_price_change ::
  "runtime \<Rightarrow> database \<Rightarrow> string option \<Rightarrow> rat \<Rightarrow> string option \<Rightarrow> database" where
  "record_price_change rt db k new_price loc =
     (case k of
        None \<Rightarrow> db
      | Some c \<Rightarrow>
          (case fetchone (filter (\<lambda>r. crop_name r = c) (crop_storage db)) of
             None \<Rightarrow> db
           | Some old_price \<Rightarrow>
               if current_market_price old_price \<noteq> new_price
               then db\<lparr>price_history := price_history db @
                         [\<lparr>price_id = next_rowid (map price_id (price_history db)),
                           price_crop_name = c, price = new_price,
                           price_sale_location = loc, price_date = today rt\<rparr>]\<rparr>
               else db))"

text \<open>
  \<^verbatim>\<open>update_storage_field\<close> (app.py, lines 822-889). The response carries
  \<^verbatim>\<open>total_value\<close> and \<^verbatim>\<open>capacity_used\<close> (NULL when the capacity is 0);
  \<^verbatim>\<open>formatted_value\<close> is a rendering of the first.
\<close>

definition storage_write ::
  "runtime \<Rightarrow> database \<Rightarrow> json \<Rightarrow> string \<Rightarrow> rat \<Rightarrow> json
     \<Rightarrow> py_error + ((rat \<times> rat option) \<times> database)" where
  "storage_write rt db crop f num new_value =
     bind_err (if f = ''current_market_price''
               then bind_err (bind_text rt crop)
                      (\<lambda>k. Inr (record_price_change rt db k num None))
               else Inr db)
       (\<lambda>db1.
     bind_err (if f \<in> set [''quantity_stored'', ''storage_capacity'',
                                 ''current_market_price'']
               then Inr None else bind_text rt new_value)
       (\<lambda>txt.
     bind_err (bind_text rt crop)
       (\<lambda>k.
     (let db2 = db1\<lparr>crop_storage :=
                   map (\<lambda>r. if crop_is k r
                             then (set_column f num txt r)\<lparr>updated_date := Some (now rt)\<rparr>
                             else r) (crop_storage db1)\<rparr>
      in Inr ((case fetchone (filter (crop_is k) (crop_storage db2)) of
                 None \<Rightarrow> (0, Some 0)
               | Some r \<Rightarrow>
                   (quantity_stored r * current_market_price r,
                    if storage_capacity r = 0 then None
                    else Some (sql_round1 (quantity_stored r / storage_capacity r * 100)))),
              db2)))))"

definition update_storage_field ::
  "runtime \<Rightarrow> store \<Rightarrow> json_object \<Rightarrow> (rat \<times> rat option) json_response \<times> store" where
  "update_storage_field rt conn body =
     (let crop = json_get body ''crop_name'';
          field_name = json_get body ''field_name'';
          new_value = json_get body ''value''
      in if \<not> json_in field_name allowed_fields then (Failure Invalid_field, conn)
         else
           (case conn of
              None \<Rightarrow> (Failure Database_connection_failed, None)
            | Some db \<Rightarrow>
                (let f = (case field_name of JStr s \<Rightarrow> s | _ \<Rightarrow> []);
                     converted =
                       (if f \<in> set [''quantity_stored'', ''storage_capacity'',
                                         ''current_market_price'']
                        then float_of_json rt new_value else Inr 0)
                 in case converted of
                      Inl e \<Rightarrow>
                        (Failure (if e = ValueError then Invalid_numeric_value else Raised e),
                         Some db)
                    | Inr num \<Rightarrow>
                        (case storage_write rt db crop f num new_value of
                           Inl e \<Rightarrow> (Failure (Raised e), Some db)
                         | Inr (answer, db') \<Rightarrow> (Success answer, Some db')))))"

datatype edit_storage_response =
    ES_no_connection
  | ES_updated
  | ES_form "py_error option"
  | ES_crop_not_found "py_error option"

text \<open>
  \<^verbatim>\<open>edit_crop_storage\<close> (app.py, lines 706-758). After a GET, or a POST that raised,
  the handler looks the crop up and renders the form or reports that it is missing.
\<close>

definition edit_crop_storage ::
  "runtime \<Rightarrow> store \<Rightarrow> string \<Rightarrow> http_method \<Rightarrow> form \<Rightarrow> edit_storage_response \<times> store" where
  "edit_crop_storage rt conn crop meth frm =
     (case conn of
        None \<Rightarrow> (ES_no_connection, None)
      | Some db \<Rightarrow>
          (let posted =
                 (if meth = POST
                  then bind_err (form_float rt frm ''quantity_stored'' (Some 0)) (\<lambda>quantity.
                       bind_err (form_float rt frm ''storage_capacity'' (Some 1000)) (\<lambda>capacity.
                       bind_err (form_float rt frm ''current_market_price'' (Some 0)) (\<lambda>new_price.
                       (let location = form_text frm ''sale_location'';
                            notes = form_text frm ''notes'';
                            db1 = record_price_change rt db (Some crop) new_price (Some location)
                        in Inr (Some (db1\<lparr>crop_storage :=
                              map (\<lambda>r. if crop_name r = crop
                                        then r\<lparr>quantity_stored := quantity,
                                               storage_capacity := capacity,
                                               current_market_price := new_price,
                                               sale_location := Some location,
                                               storage_notes := Some notes,
                                               last_price_update := Some (today rt),
                                               updated_date := Some (now rt)\<rparr>
                                        else r) (crop_storage db1)\<rparr>))))))
                  else Inr None)
           in case posted of
                Inr (Some db') \<Rightarrow> (ES_updated, Some db')
              | other \<Rightarrow>
                  (let flashed = (case other of Inl e \<Rightarrow> Some e | Inr _ \<Rightarrow> None)
                   in case fetchone (filter (\<lambda>r. crop_name r = crop) (crop_storage db)) of
                        None \<Rightarrow> (ES_crop_not_found flashed, Some db)
                      | Some _ \<Rightarrow> (ES_form flashed, Some db))))"

section \<open>Sale locations\<close>

datatype delete_location_response =
    DL_no_connection
  | DL_not_found
  | DL_in_use string nat
  | DL_deleted string

text \<open>\<^verbatim>\<open>delete_location\<close> (app.py, lines 1126-1166).\<close>

definition delete_location :: "store \<Rightarrow> nat \<Rightarrow> delete_location_response \<times> store" where
  "delete_location conn lid =
     (case conn of
        None \<Rightarrow> (DL_no_connection, None)
      | Some db \<Rightarrow>
          (case fetchone (filter (\<lambda>l. location_id l = lid) (sale_locations db)) of
             None \<Rightarrow> (DL_not_found, Some db)
           | Some location \<Rightarrow>
               (let usage_count =
                      length (filter (\<lambda>r. sale_location r = Some (location_name location))
                                (crop_storage db))
                in if usage_count > 0
                   then (DL_in_use (location_name location) usage_count, Some db)
                   else (DL_deleted (location_name location),
                         Some (db\<lparr>sale_locations :=
                                 filter (\<lambda>l. location_id l \<noteq> lid) (sale_locations db)\<rparr>)))))"

section \<open>Planting\<close>

datatype add_planting_response =
    AP_no_connection
  | AP_form
  | AP_error py_error
  | AP_added

text \<open>
  The body of the \<^verbatim>\<open>try\<close> of \<^verbatim>\<open>add_planting\<close> (app.py, lines 1357-1407). The INSERT
  is refused with \<^verbatim>\<open>IntegrityError\<close> when one of the NOT NULL columns \<^verbatim>\<open>field_id\<close>,
  \<^verbatim>\<open>crop_type\<close>, \<^verbatim>\<open>planting_date\<close> is missing from the form.
\<close>

definition planting_post :: "runtime \<Rightarrow> database \<Rightarrow> form \<Rightarrow> py_error + database" where
  "planting_post rt db frm =
     bind_err (form_float rt frm ''planted_area_ha'' (Some 0)) (\<lambda>planted_area.
     bind_err (form_float rt frm ''seed_cost'' (Some 0)) (\<lambda>seed.
     bind_err (form_float rt frm ''fertilizer_cost'' (Some 0)) (\<lambda>fertilizer.
     bind_err (form_float rt frm ''lime_cost'' (Some 0)) (\<lambda>lime.
     bind_err (form_float rt frm ''labor_cost'' (Some 0)) (\<lambda>labor.
     bind_err (form_float rt frm ''equipment_cost'' (Some 0)) (\<lambda>equipment.
     bind_err (form_float rt frm ''fuel_cost'' (Some 0)) (\<lambda>fuel.
     bind_err (form_float rt frm ''other_costs'' (Some 0)) (\<lambda>other.
     (let total = seed + fertilizer + lime + labor + equipment + fuel + other in
     bind_err (if planted_area > 0 then py_truediv total planted_area else Inr 0) (\<lambda>per_hectare.
     (case (frm ''field_id'', frm ''crop_type'', frm ''planting_date'') of
        (Some fid, Some crop, Some pdate) \<Rightarrow>
          Inr (db\<lparr>planting_records := planting_records db @
                 [\<lparr>planting_id = next_rowid (map planting_id (planting_records db)),
                   planting_field_id = fid, crop_type = crop, planting_date = pdate,
                   planted_area_ha = planted_area,
                   seed_cost = seed, fertilizer_cost = fertilizer, lime_cost = lime,
                   labor_cost = labor, equipment_cost = equipment, fuel_cost = fuel,
                   other_costs = other, total_planting_cost = total,
                   cost_per_hectare = per_hectare, status = ''Active''\<rparr>]\<rparr>)
      | _ \<Rightarrow> Inl IntegrityError)))))))))))"

text \<open>\<^verbatim>\<open>add_planting\<close> (app.py, lines 1345-1417).\<close>

definition add_planting ::
  "runtime \<Rightarrow> store \<Rightarrow> http_method \<Rightarrow> form \<Rightarrow> add_planting_response \<times> store" where
  "add_planting rt conn meth frm =
     (case conn of
        None \<Rightarrow> (AP_no_connection, None)
      | Some db \<Rightarrow>
          if meth = POST
          then (case planting_post rt db frm of
                  Inl e \<Rightarrow> (AP_error e, Some db)
                | Inr db' \<Rightarrow> (AP_added, Some db'))
          else (AP_form, Some db))"

section \<open>Harvest\<close>

text \<open>SQL's \<^verbatim>\<open>SUM\<close>: NULL over no rows.\<close>

definition sql_sum :: "rat list \<Rightarrow> rat option" where
  "sql_sum xs = (if xs = [] then None else Some (sum_list xs))"

text \<open>Python's \<^verbatim>\<open>v or 0\<close> on a number that may be \<^verbatim>\<open>None\<close>.\<close>

definition or_zero :: "rat option \<Rightarrow> rat" where
  "or_zero v = (case v of None \<Rightarrow> 0 | Some s \<Rightarrow> if s = 0 then 0 else s)"

text \<open>The maintenance records tied to a planting.\<close>

definition maintenance_of :: "database \<Rightarrow> nat \<Rightarrow> maintenance_row list" where
  "maintenance_of db pid =
     filter (\<lambda>m. maintenance_planting_id m = Some pid) (field_maintenance db)"

text \<open>
  The query that opens \<^verbatim>\<open>add_harvest\<close> (app.py, lines 1579-1585): the planting joined
  with its field, and the sum of its maintenance costs.
\<close>

definition select_planting :: "database \<Rightarrow> nat \<Rightarrow> (planting_row \<times> rat option) option" where
  "select_planting db pid =
     fetchone
       (map (\<lambda>p. (p, sql_sum (map total_cost (maintenance_of db (planting_id p)))))
          (filter (\<lambda>p. planting_id p = pid
                      \<and> planting_field_id p \<in> set (map field_id (fields_table db)))
             (planting_records db)))"

text \<open>
  The harvest-to-storage step (app.py, lines 1670-1683): when a storage row carries the
  planting's crop type, the UPDATE adds the yield to it and overwrites its price.
\<close>

definition update_storage_dashboard ::
  "database \<Rightarrow> string \<Rightarrow> rat \<Rightarrow> rat \<Rightarrow> string \<Rightarrow> database" where
  "update_storage_dashboard db crop yield market_price hdate =
     (case fetchone (filter (\<lambda>r. crop_name r = crop) (crop_storage db)) of
        None \<Rightarrow> db
      | Some storage_exists \<Rightarrow>
          db\<lparr>crop_storage :=
               map (\<lambda>r. if crop_name r = crop
                         then r\<lparr>quantity_stored := quantity_stored r + yield,
                                current_market_price := market_price,
                                last_price_update := Some hdate\<rparr>
                         else r) (crop_storage db)\<rparr>)"

text \<open>
  The body of the \<^verbatim>\<open>try\<close> of \<^verbatim>\<open>add_harvest\<close> (app.py, lines 1594-1685): the values
  read from the form, the derived figures, the INSERT (refused when \<^verbatim>\<open>harvest_date\<close> is
  missing), the status UPDATE and the storage step.
\<close>

definition harvest_post ::
  "runtime \<Rightarrow> database \<Rightarrow> planting_row \<Rightarrow> rat option \<Rightarrow> nat \<Rightarrow> form
     \<Rightarrow> py_error + (harvest_row \<times> database)" where
  "harvest_post rt db planting maintenance pid frm =
     bind_err (form_float rt frm ''total_yield_tonnes'' None) (\<lambda>total_yield.
     bind_err (form_float rt frm ''harvested_area_ha'' (Some (planted_area_ha planting)))
       (\<lambda>harvested_area.
     bind_err (if harvested_area > 0 then py_truediv total_yield harvested_area else Inr 0)
       (\<lambda>per_hectare.
     bind_err (form_float_opt rt frm ''moisture_percent'') (\<lambda>moisture.
     bind_err (form_float_opt rt frm ''test_weight'') (\<lambda>weight.
     bind_err (form_float_opt rt frm ''protein_percent'') (\<lambda>protein.
     bind_err (form_float rt frm ''damage_percent'' (Some 0)) (\<lambda>damage.
     bind_err (form_float rt frm ''market_price_per_tonne'' (Some 0)) (\<lambda>market_price.
     bind_err (form_float rt frm ''price_premium'' (Some 0)) (\<lambda>premium.
     bind_err (form_float rt frm ''harvest_labor_cost'' (Some 0)) (\<lambda>labor.
     bind_err (form_float rt frm ''harvest_equipment_cost'' (Some 0)) (\<lambda>equipment.
     bind_err (form_float rt frm ''harvest_fuel_cost'' (Some 0)) (\<lambda>fuel.
     bind_err (form_float rt frm ''transport_cost'' (Some 0)) (\<lambda>transport.
     bind_err (form_float rt frm ''drying_cost'' (Some 0)) (\<lambda>drying.
     bind_err (form_float rt frm ''storage_cost'' (Some 0)) (\<lambda>storage.
     bind_err (form_float rt frm ''other_harvest_costs'' (Some 0)) (\<lambda>other.
     (let harvest_cost = labor + equipment + fuel + transport + drying + storage + other;
          revenue = total_yield * (market_price + premium);
          maintenance_costs = or_zero maintenance;
          costs = total_planting_cost planting + maintenance_costs + harvest_cost;
          profit = revenue - costs in
     bind_err (if harvested_area > 0 then py_truediv profit harvested_area else Inr 0)
       (\<lambda>profit_ha.
     bind_err (if costs > 0
               then bind_err (py_truediv profit costs) (\<lambda>q. Inr (q * 100)) else Inr 0)
       (\<lambda>roi.
     bind_err (if total_yield > 0 then py_truediv costs total_yield else Inr 0)
       (\<lambda>break_even.
     (case frm ''harvest_date'' of
        None \<Rightarrow> Inl IntegrityError
      | Some hdate \<Rightarrow>
          (let h = \<lparr>harvest_id = next_rowid (map harvest_id (harvest_records db)),
                    harvest_planting_id = pid,
                    harvest_field_id = planting_field_id planting,
                    harvest_date = hdate,
                    total_yield_tonnes = total_yield,
                    yield_per_hectare = per_hectare,
                    harvested_area_ha = harvested_area,
                    moisture_percent = moisture,
                    test_weight = weight,
                    protein_percent = protein,
                    damage_percent = damage,
                    market_price_per_tonne = market_price,
                    price_premium = premium,
                    harvest_labor_cost = labor,
                    harvest_equipment_cost = equipment,
                    harvest_fuel_cost = fuel,
                    transport_cost = transport,
                    drying_cost = drying,
                    storage_cost = storage,
                    other_harvest_costs = other,
                    total_harvest_cost = harvest_cost,
                    gross_revenue = revenue,
                    total_costs = costs,
                    net_profit = profit,
                    profit_per_hectare = profit_ha,
                    roi_percent = roi,
                    break_even_price = break_even\<rparr>;
               db1 = db\<lparr>harvest_records := harvest_records db @ [h]\<rparr>;
               db2 = db1\<lparr>planting_records :=
                           map (\<lambda>p. if planting_id p = pid
                                     then p\<lparr>status := ''Harvested''\<rparr> else p)
                             (planting_records db1)\<rparr>;
               db3 = update_storage_dashboard db2 (crop_type planting) total_yield
                       market_price hdate
           in Inr (h, db3)))))))))))))))))))))))"

datatype add_harvest_response =
    AH_no_connection
  | AH_planting_not_found
  | AH_form
  | AH_error py_error
  | AH_recorded rat rat

text \<open>
  \<^verbatim>\<open>add_harvest\<close> (app.py, lines 1571-1695). The success notice shows the net profit and
  the ROI. A POST that raises closes the connection without a commit, so nothing of it is
  kept.
\<close>

definition add_harvest ::
  "runtime \<Rightarrow> store \<Rightarrow> nat \<Rightarrow> http_method \<Rightarrow> form \<Rightarrow> add_harvest_response \<times> store" where
  "add_harvest rt conn pid meth frm =
     (case conn of
        None \<Rightarrow> (AH_no_connection, None)
      | Some db \<Rightarrow>
          (case select_planting db pid of
             None \<Rightarrow> (AH_planting_not_found, Some db)
           | Some (planting, maintenance) \<Rightarrow>
               if meth = POST
               then (case harvest_post rt db planting maintenance pid frm of
                       Inl e \<Rightarrow> (AH_error e, Some db)
                     | Inr (h, db') \<Rightarrow> (AH_recorded (net_profit h) (roi_percent h), Some db'))
               else (AH_form, Some db)))"

text \<open>The harvest records a response leaves in the store.\<close>

definition harvest_rows_after :: "add_harvest_response \<times> store \<Rightarrow> harvest_row list" where
  "harvest_rows_after r = (case snd r of None \<Rightarrow> [] | Some db \<Rightarrow> harvest_records db)"

section \<open>Example data\<close>

text \<open>
  A runtime for the worked examples. Its \<open>py_float\<close> reads an optional minus sign and
  decimal digits, where it agrees with Python's \<^verbatim>\<open>float\<close>, and refuses every other
  string; its \<open>sql_int_text\<close> writes a 64-bit integer in decimal. No example binds a float
  to a text column, so \<open>sql_real_text\<close> is a placeholder.
\<close>

definition digit_value :: "char \<Rightarrow> nat option" where
  "digit_value c =
     (let n = (of_char c :: nat) in if 48 \<le> n \<and> n \<le> 57 then Some (n - 48) else None)"

fun digits_value :: "nat \<Rightarrow> string \<Rightarrow> nat option" where
  "digits_value acc [] = Some acc"
| "digits_value acc (c # cs) =
     (case digit_value c of None \<Rightarrow> None | Some d \<Rightarrow> digits_value (10 * acc + d) cs)"

definition integer_literal :: "string \<Rightarrow> rat option" where
  "integer_literal s =
     (case s of
        [] \<Rightarrow> None
      | c # cs \<Rightarrow>
          if c = CHR ''-''
          then (if cs = [] then None else map_option (\<lambda>n. - of_nat n) (digits_value 0 cs))
          else map_option of_nat (digits_value 0 s))"

fun decimal_digits :: "nat \<Rightarrow> string" where
  "decimal_digits n =
     (if n < 10 then [char_of (48 + n)]
      else decimal_digits (n div 10) @ [char_of (48 + n mod 10)])"

definition integer_text :: "int \<Rightarrow> string option" where
  "integer_text i =
     (if i < - (2 ^ 63) \<or> 2 ^ 63 \<le> i then None
      else if i < 0 then Some (CHR ''-'' # decimal_digits (nat (- i)))
      else Some (decimal_digits (nat i)))"

definition example_runtime :: runtime where
  "example_runtime =
     \<lparr>py_float = integer_literal, sql_int_text = integer_text,
      sql_real_text = (\<lambda>x. ''real''),
      now = ''2025-09-01 12:00:00'', today = ''2025-09-01''\<rparr>"

text \<open>
  A farm with one field and two plantings on it: wheat, with 1000 in planting costs and
  one maintenance record of 150 tied to it, and rye, with 500 in planting costs and no
  maintenance. The storage table has the wheat and barley rows of
  \<^verbatim>\<open>init_crop_storage.py\<close> and no row for rye; there are two sale locations.
\<close>

definition example_planting :: planting_row where
  "example_planting =
     \<lparr>planting_id = 1, planting_field_id = ''F001'', crop_type = ''Wheat'',
      planting_date = ''2025-04-01'', planted_area_ha = 10,
      seed_cost = 600, fertilizer_cost = 400, lime_cost = 0, labor_cost = 0,
      equipment_cost = 0, fuel_cost = 0, other_costs = 0,
      total_planting_cost = 1000, cost_per_hectare = 100, status = ''Active''\<rparr>"

definition rye_planting :: planting_row where
  "rye_planting =
     \<lparr>planting_id = 2, planting_field_id = ''F001'', crop_type = ''Rye'',
      planting_date = ''2025-04-15'', planted_area_ha = 5,
      seed_cost = 500, fertilizer_cost = 0, lime_cost = 0, labor_cost = 0,
      equipment_cost = 0, fuel_cost = 0, other_costs = 0,
      total_planting_cost = 500, cost_per_hectare = 100, status = ''Active''\<rparr>"

definition example_db :: database where
  "example_db =
     \<lparr>fields_table = [\<lparr>field_id = ''F001'', field_name = ''North Valley'',
                       size_hectares = 31 / 2\<rparr>],
      crop_seasons = [\<lparr>season_id = 1, season_field_id = ''F001'', crop_year = 2025,
                       season_crop_type = ''Wheat''\<rparr>],
      field_operations = [\<lparr>operation_id = 1, operation_field_id = ''F001'',
                           operation_type = ''Plowing''\<rparr>],
      weather_events = [\<lparr>event_id = 1, event_field_id = ''F001'', weather_type = ''Hail''\<rparr>],
      planting_records = [example_planting, rye_planting],
      field_maintenance = [\<lparr>maintenance_id = 1, maintenance_field_id = ''F001'',
                            maintenance_planting_id = Some 1, total_cost = 150\<rparr>],
      harvest_records = [],
      crop_storage =
        [\<lparr>storage_id = 1, crop_name = ''Wheat'', quantity_stored = 0,
          storage_capacity = 2000, current_market_price = 220,
          sale_location = Some ''Grain Elevator'', last_price_update = Some ''2025-01-01'',
          storage_notes = None, updated_date = None\<rparr>,
         \<lparr>storage_id = 2, crop_name = ''Barley'', quantity_stored = 0,
          storage_capacity = 1800, current_market_price = 190,
          sale_location = Some ''Grain Elevator'', last_price_update = Some ''2025-01-01'',
          storage_notes = None, updated_date = None\<rparr>],
      sale_locations = [\<lparr>location_id = 1, location_name = ''Grain Elevator''\<rparr>,
                        \<lparr>location_id = 2, location_name = ''Rice Mill''\<rparr>],
      price_history = []\<rparr>"

text \<open>
  The harvest of the specification's scenario: a yield of 50 on 10 hectares at a price of
  200 with a premium of 10; harvest costs of 50 bring the total costs to 1200.
\<close>

definition scenario_harvest_form :: form where
  "scenario_harvest_form =
     map_of [(''harvest_date'', ''2025-09-01''), (''total_yield_tonnes'', ''50''),
             (''harvested_area_ha'', ''10''), (''market_price_per_tonne'', ''200''),
             (''price_premium'', ''10''), (''harvest_labor_cost'', ''50'')]"

text \<open>The same harvest entered with a negative area.\<close>

definition negative_area_form :: form where
  "negative_area_form =
     map_of [(''harvest_date'', ''2025-09-01''), (''total_yield_tonnes'', ''50''),
             (''harvested_area_ha'', ''-10''), (''market_price_per_tonne'', ''200''),
             (''price_premium'', ''10''), (''harvest_labor_cost'', ''50'')]"


text \<open>The planting of the specification's scenario.\<close>

definition scenario_planting_form :: form where
  "scenario_planting_form =
     map_of [(''field_id'', ''F001''), (''crop_type'', ''Barley''),
             (''planting_date'', ''2025-10-01''), (''planted_area_ha'', ''10''),
             (''seed_cost'', ''100''), (''fertilizer_cost'', ''50''),
             (''labor_cost'', ''30'')]"


section \<open>Basic facts\<close>

lemma bind_err_simps [simp]:
  "bind_err (Inr x) f = f x"
  "bind_err (Inl e) f = Inl e"
  by (simp_all add: bind_err_def)

lemma bind_err_InrE:
  assumes "bind_err m f = Inr y"
  obtains x where "m = Inr x" and "f x = Inr y"
  using assms by (cases m) simp_all

lemma fetchone_simps [simp]:
  "fetchone [] = None"
  "fetchone (r # rs) = Some r"
  by (simp_all add: fetchone_def)

lemma fetchone_None [simp]: "fetchone rows = None \<longleftrightarrow> rows = []"
  by (cases rows) simp_all


section \<open>Field deletion\<close>

text \<open>
  What a successful \<open>delete_field\<close> does remove: the crop seasons, field operations and
  weather events of the field, and the field. The planting, maintenance and harvest tables
  are not touched.
\<close>

lemma delete_field_clears_listed_tables:
  assumes "delete_field (Some db) fid = (DF_deleted name, Some db')"
  shows "filter (\<lambda>r. season_field_id r = fid) (crop_seasons db') = []
       \<and> filter (\<lambda>r. operation_field_id r = fid) (field_operations db') = []
       \<and> filter (\<lambda>r. event_field_id r = fid) (weather_events db') = []
       \<and> filter (\<lambda>f. field_id f = fid) (fields_table db') = []
       \<and> planting_records db' = planting_records db
       \<and> field_maintenance db' = field_maintenance db
       \<and> harvest_records db' = harvest_records db"
  using assms
  by (auto simp: delete_field_def Let_def filter_empty_conv split: option.splits)

text \<open>
  Claim C3 says that deleting a field leaves no row of any table referencing it. On the
  example farm, deleting field F001 succeeds and empties \<^verbatim>\<open>fields\<close>,
  \<^verbatim>\<open>crop_seasons\<close>, \<^verbatim>\<open>field_operations\<close> and \<^verbatim>\<open>weather_events\<close>, but the two
  planting records of F001 and the maintenance record are still there: three rows
  reference a field that no longer exists.
\<close>

theorem delete_field_leaves_planting_rows:
  "\<exists>db'. delete_field (Some example_db) ''F001'' = (DF_deleted ''North Valley'', Some db')
         \<and> fields_table db' = []
         \<and> crop_seasons db' = [] \<and> field_operations db' = [] \<and> weather_events db' = []
         \<and> planting_records db' = [example_planting, rye_planting]
         \<and> planting_field_id example_planting = ''F001''
         \<and> references_to db' ''F001'' = 3"
  by (simp add: delete_field_def example_db_def example_planting_def rye_planting_def
        references_to_def Let_def)

section \<open>Harvest submission\<close>

text \<open>The guarded divisions of the handlers never reach Python's division by zero.\<close>

lemma guarded_div [simp]:
  "(if 0 < b then py_truediv a b else Inr 0) = Inr (if 0 < b then a / b else 0)"
  by (simp add: py_truediv_def)

lemma guarded_roi [simp]:
  "(if 0 < c then bind_err (py_truediv a c) (\<lambda>q. Inr (q * 100)) else Inr 0)
     = Inr (if 0 < c then a / c * 100 else 0)"
  by (simp add: py_truediv_def)

lemma or_zero_sql_sum [simp]: "or_zero (sql_sum xs) = sum_list xs"
  by (simp add: or_zero_def sql_sum_def)

lemma harvest_post_row:
  assumes "harvest_post rt db p mc pid frm = Inr (h, db')"
  shows "form_float rt frm ''total_yield_tonnes'' None = Inr (total_yield_tonnes h)
    \<and> form_float rt frm ''harvested_area_ha'' (Some (planted_area_ha p)) = Inr (harvested_area_ha h)
    \<and> form_float rt frm ''market_price_per_tonne'' (Some 0) = Inr (market_price_per_tonne h)
    \<and> form_float rt frm ''price_premium'' (Some 0) = Inr (price_premium h)
    \<and> form_float rt frm ''harvest_labor_cost'' (Some 0) = Inr (harvest_labor_cost h)
    \<and> form_float rt frm ''harvest_equipment_cost'' (Some 0) = Inr (harvest_equipment_cost h)
    \<and> form_float rt frm ''harvest_fuel_cost'' (Some 0) = Inr (harvest_fuel_cost h)
    \<and> form_float rt frm ''transport_cost'' (Some 0) = Inr (transport_cost h)
    \<and> form_float rt frm ''drying_cost'' (Some 0) = Inr (drying_cost h)
    \<and> form_float rt frm ''storage_cost'' (Some 0) = Inr (storage_cost h)
    \<and> form_float rt frm ''other_harvest_costs'' (Some 0) = Inr (other_harvest_costs h)
    \<and> frm ''harvest_date'' = Some (harvest_date h)
    \<and> harvest_planting_id h = pid
    \<and> harvest_field_id h = planting_field_id p
    \<and> total_harvest_cost h = harvest_labor_cost h + harvest_equipment_cost h + harvest_fuel_cost h
           + transport_cost h + drying_cost h + storage_cost h + other_harvest_costs h
    \<and> gross_revenue h = total_yield_tonnes h * (market_price_per_tonne h + price_premium h)
    \<and> total_costs h = total_planting_cost p + or_zero mc + total_harvest_cost h
    \<and> net_profit h = gross_revenue h - total_costs h
    \<and> yield_per_hectare h = (if 0 < harvested_area_ha h then total_yield_tonnes h / harvested_area_ha h else 0)
    \<and> profit_per_hectare h = (if 0 < harvested_area_ha h then net_profit h / harvested_area_ha h else 0)
    \<and> roi_percent h = (if 0 < total_costs h then net_profit h / total_costs h * 100 else 0)
    \<and> break_even_price h = (if 0 < total_yield_tonnes h then total_costs h / total_yield_tonnes h else 0)
    \<and> db' = update_storage_dashboard
                 (db\<lparr>harvest_records := harvest_records db @ [h],
                     planting_records := map (\<lambda>q. if planting_id q = pid then q\<lparr>status := ''Harvested''\<rparr> else q)
                                            (planting_records db)\<rparr>)
                 (crop_type p) (total_yield_tonnes h) (market_price_per_tonne h) (harvest_date h)"
  using assms unfolding harvest_post_def Let_def
  apply (elim bind_err_InrE)
  apply (clarsimp split: option.splits)
  done


lemma update_storage_dashboard_tables:
  "harvest_records (update_storage_dashboard db c y m d) = harvest_records db
   \<and> price_history (update_storage_dashboard db c y m d) = price_history db
   \<and> planting_records (update_storage_dashboard db c y m d) = planting_records db
   \<and> crop_storage (update_storage_dashboard db c y m d) =
       map (\<lambda>r. if crop_name r = c
                 then r\<lparr>quantity_stored := quantity_stored r + y,
                        current_market_price := m,
                        last_price_update := Some d\<rparr>
                 else r) (crop_storage db)"
proof (cases "filter (\<lambda>r. crop_name r = c) (crop_storage db)")
  case Nil
  then have "\<forall>r \<in> set (crop_storage db). crop_name r \<noteq> c"
    by (simp add: filter_empty_conv)
  then have "map (\<lambda>r. if crop_name r = c
                 then r\<lparr>quantity_stored := quantity_stored r + y,
                        current_market_price := m,
                        last_price_update := Some d\<rparr>
                 else r) (crop_storage db) = crop_storage db"
    by (intro map_idI) simp
  with Nil show ?thesis by (simp add: update_storage_dashboard_def)
next
  case (Cons a list)
  then show ?thesis by (simp add: update_storage_dashboard_def)
qed



lemma add_harvest_recorded:
  assumes "add_harvest rt (Some db) pid meth frm = (AH_recorded np roi, Some db')"
  obtains p mc h where "select_planting db pid = Some (p, mc)"
    and "harvest_post rt db p mc pid frm = Inr (h, db')"
    and "np = net_profit h" and "roi = roi_percent h"
  using assms unfolding add_harvest_def
  by (auto split: option.splits if_splits sum.splits)


text \<open>The definitions that evaluate the handlers on the example data.\<close>

lemmas example_defs =
  example_runtime_def example_db_def example_planting_def rye_planting_def
  integer_literal_def digit_value_def

lemmas harvest_defs =
  add_harvest_def harvest_post_def select_planting_def maintenance_of_def sql_sum_def
  or_zero_def form_float_def form_float_opt_def update_storage_dashboard_def next_rowid_def
  Let_def

lemma add_harvest_success:
  assumes "add_harvest rt (Some db) pid POST frm = (AH_recorded np roi, Some db')"
  obtains p mc h where "select_planting db pid = Some (p, mc)"
    and "harvest_post rt db p mc pid frm = Inr (h, db')"
    and "harvest_records db' = harvest_records db @ [h]"
    and "np = net_profit h" and "roi = roi_percent h"
proof -
  from assms obtain p mc h where sp: "select_planting db pid = Some (p, mc)"
    and hp: "harvest_post rt db p mc pid frm = Inr (h, db')"
    and np: "np = net_profit h" and roi: "roi = roi_percent h"
    by (rule add_harvest_recorded)
  from harvest_post_row [OF hp] have hr: "harvest_records db' = harvest_records db @ [h]"
    by (simp add: update_storage_dashboard_tables)
  show ?thesis by (rule that [OF sp hp hr np roi])
qed












section \<open>Price history\<close>

text \<open>
  The two storage editors log a price change: \<open>record_price_change\<close> appends a row with
  the new price when the crop has a storage row whose price differs from it, and nothing
  otherwise; it reads the price before the UPDATE is applied.
\<close>

lemma record_price_change_history:
  "price_history (record_price_change rt db (Some c) new loc) =
     (case fetchone (filter (\<lambda>r. crop_name r = c) (crop_storage db)) of
        None \<Rightarrow> price_history db
      | Some old \<Rightarrow>
          if current_market_price old \<noteq> new
          then price_history db @
                 [\<lparr>price_id = next_rowid (map price_id (price_history db)),
                   price_crop_name = c, price = new,
                   price_sale_location = loc, price_date = today rt\<rparr>]
          else price_history db)"
  and record_price_change_storage:
  "crop_storage (record_price_change rt db k new loc) = crop_storage db"
  by (simp_all add: record_price_change_def split: option.splits)

lemma update_storage_field_logs_price_change:
  assumes "json_get body ''field_name'' = JStr ''current_market_price''"
    and "json_get body ''crop_name'' = JStr c"
    and "float_of_json rt (json_get body ''value'') = Inr new"
  shows "\<exists>a db'. update_storage_field rt (Some db) body = (Success a, Some db')
      \<and> price_history db' = price_history (record_price_change rt db (Some c) new None)
      \<and> crop_storage db' =
          map (\<lambda>r. if crop_name r = c
                    then r\<lparr>current_market_price := new, updated_date := Some (now rt)\<rparr>
                    else r) (crop_storage db)"
  using assms
  by (simp add: update_storage_field_def storage_write_def Let_def json_in_def
        allowed_fields_def bind_text_def crop_is_def set_column_def
        record_price_change_storage)

lemma edit_crop_storage_logs_price_change:
  assumes "edit_crop_storage rt (Some db) crop POST frm = (ES_updated, Some db')"
  shows "\<exists>new. form_float rt frm ''current_market_price'' (Some 0) = Inr new
      \<and> price_history db'
          = price_history (record_price_change rt db (Some crop) new
                             (Some (form_text frm ''sale_location'')))"
  using assms unfolding edit_crop_storage_def Let_def
  by (auto elim!: bind_err_InrE split: sum.splits option.splits if_splits)

text \<open>No harvest submission writes to \<^verbatim>\<open>price_history\<close>.\<close>

lemma add_harvest_keeps_price_history:
  assumes "add_harvest rt (Some db) pid POST frm = (AH_recorded np roi, Some db')"
  shows "price_history db' = price_history db"
proof -
  from assms obtain p mc h where hp: "harvest_post rt db p mc pid frm = Inr (h, db')"
    by (rule add_harvest_success)
  from harvest_post_row [OF hp] show ?thesis
    by (simp add: update_storage_dashboard_tables)
qed

text \<open>
  Claim C4 says that every operation that changes a stored \<^verbatim>\<open>current_market_price\<close>
  appends a price-history row with the new price. The scenario harvest changes the price
  of wheat from 220 to 200, and the price history is as empty afterwards as it was before:
  the harvest handler lacks the step that both storage editors have.
\<close>

theorem harvest_overwrites_price_without_history:
  "\<exists>db'. add_harvest example_runtime (Some example_db) 1 POST scenario_harvest_form
           = (AH_recorded 9300 775, Some db')
        \<and> map crop_name (crop_storage example_db) = [''Wheat'', ''Barley'']
        \<and> map current_market_price (crop_storage example_db) = [220, 190]
        \<and> map current_market_price (crop_storage db') = [200, 190]
        \<and> price_history example_db = []
        \<and> price_history db' = []"
  by (simp add: example_defs harvest_defs scenario_harvest_form_def)

section \<open>Planting submission\<close>

lemma planting_post_last_row:
  assumes "planting_post rt db frm = Inr db'"
  defines "row \<equiv> last (planting_records db')"
  shows "planting_records db' = planting_records db @ [row]
    \<and> form_float rt frm ''planted_area_ha'' (Some 0) = Inr (planted_area_ha row)
    \<and> form_float rt frm ''seed_cost'' (Some 0) = Inr (seed_cost row)
    \<and> form_float rt frm ''fertilizer_cost'' (Some 0) = Inr (fertilizer_cost row)
    \<and> form_float rt frm ''lime_cost'' (Some 0) = Inr (lime_cost row)
    \<and> form_float rt frm ''labor_cost'' (Some 0) = Inr (labor_cost row)
    \<and> form_float rt frm ''equipment_cost'' (Some 0) = Inr (equipment_cost row)
    \<and> form_float rt frm ''fuel_cost'' (Some 0) = Inr (fuel_cost row)
    \<and> form_float rt frm ''other_costs'' (Some 0) = Inr (other_costs row)
    \<and> frm ''field_id'' = Some (planting_field_id row)
    \<and> frm ''crop_type'' = Some (crop_type row)
    \<and> frm ''planting_date'' = Some (planting_date row)
    \<and> status row = ''Active''
    \<and> total_planting_cost row = seed_cost row + fertilizer_cost row + lime_cost row
          + labor_cost row + equipment_cost row + fuel_cost row + other_costs row
    \<and> cost_per_hectare row
          = (if 0 < planted_area_ha row then total_planting_cost row / planted_area_ha row
             else 0)"
  using assms(1) unfolding row_def planting_post_def Let_def
  apply (elim bind_err_InrE)
  apply (clarsimp split: option.splits)
  done

lemma planting_post_row:
  assumes "planting_post rt db frm = Inr db'"
  obtains row where "planting_records db' = planting_records db @ [row]
    \<and> form_float rt frm ''planted_area_ha'' (Some 0) = Inr (planted_area_ha row)
    \<and> form_float rt frm ''seed_cost'' (Some 0) = Inr (seed_cost row)
    \<and> form_float rt frm ''fertilizer_cost'' (Some 0) = Inr (fertilizer_cost row)
    \<and> form_float rt frm ''lime_cost'' (Some 0) = Inr (lime_cost row)
    \<and> form_float rt frm ''labor_cost'' (Some 0) = Inr (labor_cost row)
    \<and> form_float rt frm ''equipment_cost'' (Some 0) = Inr (equipment_cost row)
    \<and> form_float rt frm ''fuel_cost'' (Some 0) = Inr (fuel_cost row)
    \<and> form_float rt frm ''other_costs'' (Some 0) = Inr (other_costs row)
    \<and> frm ''field_id'' = Some (planting_field_id row)
    \<and> frm ''crop_type'' = Some (crop_type row)
    \<and> frm ''planting_date'' = Some (planting_date row)
    \<and> status row = ''Active''
    \<and> total_planting_cost row = seed_cost row + fertilizer_cost row + lime_cost row
          + labor_cost row + equipment_cost row + fuel_cost row + other_costs row
    \<and> cost_per_hectare row
          = (if 0 < planted_area_ha row then total_planting_cost row / planted_area_ha row
             else 0)"
proof -
  define row where "row = last (planting_records db')"
  show ?thesis
    by (rule that [of row]) (use planting_post_last_row [OF assms] in \<open>simp only: row_def\<close>)
qed

lemma add_planting_success:
  assumes "add_planting rt (Some db) POST frm = (AP_added, Some db')"
  shows "planting_post rt db frm = Inr db'"
  using assms by (auto simp: add_planting_def split: sum.splits)





section \<open>The guard on the divisions\<close>

text \<open>No step of either handler raises \<^verbatim>\<open>ZeroDivisionError\<close>.\<close>

lemma form_float_no_zero_division [simp]:
  "form_float rt frm k d \<noteq> Inl ZeroDivisionError"
  "form_float_opt rt frm k \<noteq> Inl ZeroDivisionError"
  by (simp_all add: form_float_def form_float_opt_def split: option.splits)

lemma bind_err_Inl_iff:
  "bind_err m f = Inl e \<longleftrightarrow> m = Inl e \<or> (\<exists>x. m = Inr x \<and> f x = Inl e)"
  by (cases m) simp_all

lemma planting_post_no_zero_division: "planting_post rt db frm \<noteq> Inl ZeroDivisionError"
  unfolding planting_post_def Let_def
  by (simp add: bind_err_Inl_iff split: option.splits)

lemma harvest_post_no_zero_division:
  "harvest_post rt db p mc pid frm \<noteq> Inl ZeroDivisionError"
  unfolding harvest_post_def Let_def
  by (simp add: bind_err_Inl_iff split: option.splits)

text \<open>
  Claim C6 says that each derived division gives 0 when its denominator is 0 and the
  quotient otherwise. A harvest entered with an area of -10 and a yield of 50 is stored
  with a yield per hectare of 0, while the denominator is not 0 and the quotient is -5.
\<close>

theorem negative_area_yield_is_not_the_quotient:
  "fst (add_harvest example_runtime (Some example_db) 1 POST negative_area_form)
     = AH_recorded 9300 775
   \<and> map total_yield_tonnes
        (harvest_rows_after
           (add_harvest example_runtime (Some example_db) 1 POST negative_area_form)) = [50]
   \<and> map harvested_area_ha
        (harvest_rows_after
           (add_harvest example_runtime (Some example_db) 1 POST negative_area_form)) = [- 10]
   \<and> map yield_per_hectare
        (harvest_rows_after
           (add_harvest example_runtime (Some example_db) 1 POST negative_area_form)) = [0]
   \<and> (50 :: rat) / (- 10) = - 5
   \<and> map yield_per_hectare
        (harvest_rows_after
           (add_harvest example_runtime (Some example_db) 1 POST negative_area_form))
       \<noteq> [50 / (- 10)]"
  by (simp add: example_defs harvest_defs negative_area_form_def harvest_rows_after_def)

text \<open>
  Claim C6, amended. Each derived division of the planting and harvest handlers
  (\<^verbatim>\<open>cost_per_hectare\<close>, \<^verbatim>\<open>yield_per_hectare\<close>, \<^verbatim>\<open>profit_per_hectare\<close>,
  \<^verbatim>\<open>roi_percent\<close>, \<^verbatim>\<open>break_even_price\<close>) is the quotient when its denominator is
  positive and 0 when the denominator is zero or negative; in particular the ROI is 0 when
  the total costs are 0, whatever the net profit. Neither handler ever fails with a
  division by zero.
\<close>

theorem divisions_guarded_by_positive_denominator:
  "(add_planting rt (Some db) POST pfrm = (AP_added, Some db')
      \<longrightarrow> (\<exists>row. planting_records db' = planting_records db @ [row]
             \<and> cost_per_hectare row
                 = (if 0 < planted_area_ha row
                    then total_planting_cost row / planted_area_ha row else 0)))
   \<and> (add_harvest rt (Some db) pid POST hfrm = (AH_recorded np roi, Some db'')
      \<longrightarrow> (\<exists>h. harvest_records db'' = harvest_records db @ [h]
             \<and> yield_per_hectare h
                 = (if 0 < harvested_area_ha h
                    then total_yield_tonnes h / harvested_area_ha h else 0)
             \<and> profit_per_hectare h
                 = (if 0 < harvested_area_ha h then net_profit h / harvested_area_ha h else 0)
             \<and> roi_percent h
                 = (if 0 < total_costs h then net_profit h / total_costs h * 100 else 0)
             \<and> break_even_price h
                 = (if 0 < total_yield_tonnes h then total_costs h / total_yield_tonnes h
                    else 0)
             \<and> (total_costs h = 0 \<longrightarrow> roi_percent h = 0)))
   \<and> fst (add_planting rt conn meth pfrm) \<noteq> AP_error ZeroDivisionError
   \<and> fst (add_harvest rt conn pid meth hfrm) \<noteq> AH_error ZeroDivisionError"
proof (intro conjI impI)
  assume "add_planting rt (Some db) POST pfrm = (AP_added, Some db')"
  then have "planting_post rt db pfrm = Inr db'" by (rule add_planting_success)
  then obtain row where "planting_records db' = planting_records db @ [row]
    \<and> cost_per_hectare row
          = (if 0 < planted_area_ha row then total_planting_cost row / planted_area_ha row
             else 0)"
    by (rule planting_post_row) simp
  then show "\<exists>row. planting_records db' = planting_records db @ [row]
             \<and> cost_per_hectare row
                 = (if 0 < planted_area_ha row
                    then total_planting_cost row / planted_area_ha row else 0)"
    by (intro exI [of _ row])
next
  assume "add_harvest rt (Some db) pid POST hfrm = (AH_recorded np roi, Some db'')"
  then obtain p mc h where hp: "harvest_post rt db p mc pid hfrm = Inr (h, db'')"
    and hr: "harvest_records db'' = harvest_records db @ [h]"
    by (rule add_harvest_success)
  from harvest_post_row [OF hp] hr
  show "\<exists>h. harvest_records db'' = harvest_records db @ [h]
             \<and> yield_per_hectare h
                 = (if 0 < harvested_area_ha h
                    then total_yield_tonnes h / harvested_area_ha h else 0)
             \<and> profit_per_hectare h
                 = (if 0 < harvested_area_ha h then net_profit h / harvested_area_ha h else 0)
             \<and> roi_percent h
                 = (if 0 < total_costs h then net_profit h / total_costs h * 100 else 0)
             \<and> break_even_price h
                 = (if 0 < total_yield_tonnes h then total_costs h / total_yield_tonnes h
                    else 0)
             \<and> (total_costs h = 0 \<longrightarrow> roi_percent h = 0)"
    by (intro exI [of _ h]) simp
next
  show "fst (add_planting rt conn meth pfrm) \<noteq> AP_error ZeroDivisionError"
    using planting_post_no_zero_division [of rt _ pfrm]
    by (auto simp: add_planting_def split: option.splits sum.splits)
next
  show "fst (add_harvest rt conn pid meth hfrm) \<noteq> AH_error ZeroDivisionError"
    using harvest_post_no_zero_division [of rt _ _ _ pid hfrm]
    by (auto simp: add_harvest_def split: option.splits sum.splits)
qed

text \<open>
  The harvest with an area of -10: yield and profit per hectare are 0, the ROI is
  9300 / 1200 * 100 and the break-even price is 1200 / 50.
\<close>

lemma negative_area_recorded:
  "\<exists>h db'. add_harvest example_runtime (Some example_db) 1 POST negative_area_form
              = (AH_recorded 9300 775, Some db')
         \<and> harvest_records db' = [h]
         \<and> total_yield_tonnes h = 50 \<and> harvested_area_ha h = - 10
         \<and> total_costs h = 1200 \<and> net_profit h = 9300"
  by (simp add: example_defs harvest_defs negative_area_form_def)

theorem divisions_guarded_by_positive_denominator_witness:
  "\<exists>h db'. add_harvest example_runtime (Some example_db) 1 POST negative_area_form
              = (AH_recorded 9300 775, Some db')
         \<and> harvest_records db' = [h]
         \<and> harvested_area_ha h = - 10
         \<and> yield_per_hectare h = 0
         \<and> profit_per_hectare h = 0
         \<and> roi_percent h = 775
         \<and> break_even_price h = 24"
proof -
  from negative_area_recorded obtain h db' where
    ok: "add_harvest example_runtime (Some example_db) 1 POST negative_area_form
              = (AH_recorded 9300 775, Some db')"
    and h: "harvest_records db' = [h]" "total_yield_tonnes h = 50" "harvested_area_ha h = - 10"
      "total_costs h = 1200" "net_profit h = 9300"
    by blast
  from divisions_guarded_by_positive_denominator
         [of example_runtime example_db scenario_planting_form example_db 1
             negative_area_form 9300 775 db', THEN conjunct2, THEN conjunct1] ok h
  have "yield_per_hectare h = 0 \<and> profit_per_hectare h = 0 \<and> roi_percent h = 775
      \<and> break_even_price h = 24"
    by (auto simp: example_db_def)
  with ok h show ?thesis by blast
qed

section \<open>The storage editors\<close>

lemma json_in_allowed:
  "json_in v allowed_fields \<longleftrightarrow>
     v \<in> {JStr ''quantity_stored'', JStr ''storage_capacity'', JStr ''current_market_price'',
          JStr ''sale_location'', JStr ''notes''}"
  by (cases v) (auto simp: json_in_def allowed_fields_def)

text \<open>
  Claim C8. The allow-list of \<open>update_storage_field\<close> is \<^verbatim>\<open>quantity_stored\<close>,
  \<^verbatim>\<open>storage_capacity\<close>, \<^verbatim>\<open>current_market_price\<close>, \<^verbatim>\<open>sale_location\<close>, \<^verbatim>\<open>notes\<close>. A
  request whose field name is not one of them is answered with the error
  \<^verbatim>\<open>Invalid field\<close> and the store is what it was; a request that changes the store has a
  field name of the list, and a field name of the list is never answered with
  \<^verbatim>\<open>Invalid field\<close>.
\<close>

theorem update_storage_field_allow_list:
  "set allowed_fields
     = {''quantity_stored'', ''storage_capacity'', ''current_market_price'',
        ''sale_location'', ''notes''}
   \<and> (\<not> json_in (json_get body ''field_name'') allowed_fields
        \<longrightarrow> update_storage_field rt conn body = (Failure Invalid_field, conn))
   \<and> (snd (update_storage_field rt conn body) \<noteq> conn
        \<longrightarrow> json_in (json_get body ''field_name'') allowed_fields)
   \<and> (json_in (json_get body ''field_name'') allowed_fields
        \<longrightarrow> fst (update_storage_field rt conn body) \<noteq> Failure Invalid_field)"
proof (intro conjI impI)
  show "set allowed_fields
     = {''quantity_stored'', ''storage_capacity'', ''current_market_price'',
        ''sale_location'', ''notes''}"
    by (simp add: allowed_fields_def)
next
  assume "\<not> json_in (json_get body ''field_name'') allowed_fields"
  then show "update_storage_field rt conn body = (Failure Invalid_field, conn)"
    by (simp add: update_storage_field_def Let_def)
next
  assume "snd (update_storage_field rt conn body) \<noteq> conn"
  then show "json_in (json_get body ''field_name'') allowed_fields"
    by (rule contrapos_np) (simp add: update_storage_field_def Let_def)
next
  assume "json_in (json_get body ''field_name'') allowed_fields"
  then show "fst (update_storage_field rt conn body) \<noteq> Failure Invalid_field"
    by (auto simp: update_storage_field_def Let_def split: option.splits sum.splits)
qed

text \<open>
  Two refused requests: the column \<^verbatim>\<open>storage_id\<close>, and a field name that tries to
  smuggle a second assignment into the UPDATE statement.
\<close>

theorem update_storage_field_allow_list_witness:
  "\<not> json_in (JStr ''storage_id'') allowed_fields
   \<and> update_storage_field example_runtime (Some example_db)
        (map_of [(''crop_name'', JStr ''Wheat''), (''field_name'', JStr ''storage_id''),
                 (''value'', JInt 7)])
      = (Failure Invalid_field, Some example_db)
   \<and> \<not> json_in (JStr ''crop_name = 'x', notes'') allowed_fields
   \<and> update_storage_field example_runtime (Some example_db)
        (map_of [(''crop_name'', JStr ''Wheat''),
                 (''field_name'', JStr ''crop_name = 'x', notes''),
                 (''value'', JStr ''y'')])
      = (Failure Invalid_field, Some example_db)"
proof -
  have a: "\<not> json_in (JStr ''storage_id'') allowed_fields"
    and b: "\<not> json_in (JStr ''crop_name = 'x', notes'') allowed_fields"
    by (simp_all add: json_in_def allowed_fields_def)
  from a have "\<not> json_in (json_get (map_of [(''crop_name'', JStr ''Wheat''),
      (''field_name'', JStr ''storage_id''), (''value'', JInt 7)]) ''field_name'') allowed_fields"
    by (simp add: json_get_def)
  with update_storage_field_allow_list [of "map_of [(''crop_name'', JStr ''Wheat''),
      (''field_name'', JStr ''storage_id''), (''value'', JInt 7)]" example_runtime "Some example_db"]
  have 1: "update_storage_field example_runtime (Some example_db)
        (map_of [(''crop_name'', JStr ''Wheat''), (''field_name'', JStr ''storage_id''),
                 (''value'', JInt 7)])
      = (Failure Invalid_field, Some example_db)"
    by blast
  from b have "\<not> json_in (json_get (map_of [(''crop_name'', JStr ''Wheat''),
      (''field_name'', JStr ''crop_name = 'x', notes''), (''value'', JStr ''y'')]) ''field_name'')
      allowed_fields"
    by (simp add: json_get_def)
  with update_storage_field_allow_list [of "map_of [(''crop_name'', JStr ''Wheat''),
      (''field_name'', JStr ''crop_name = 'x', notes''), (''value'', JStr ''y'')]"
      example_runtime "Some example_db"]
  have 2: "update_storage_field example_runtime (Some example_db)
        (map_of [(''crop_name'', JStr ''Wheat''),
                 (''field_name'', JStr ''crop_name = 'x', notes''),
                 (''value'', JStr ''y'')])
      = (Failure Invalid_field, Some example_db)"
    by blast
  from a b 1 2 show ?thesis by blast
qed







section \<open>Deleting a sale location\<close>

lemma filter_key_unique:
  "distinct (map f xs) \<Longrightarrow> l \<in> set xs \<Longrightarrow> filter (\<lambda>x. f x = f l) xs = [l]"
  by (induction xs) (auto simp: filter_empty_conv image_iff)

text \<open>
  Claim C10. \<open>delete_location\<close> looks the location up by its id. When some
  \<^verbatim>\<open>crop_storage\<close> row has that location's name as its \<^verbatim>\<open>sale_location\<close>, the
  deletion is refused with an error notice and the store is unchanged; otherwise exactly
  the rows with that id are removed from \<^verbatim>\<open>sale_locations\<close>. With the ids distinct, as
  the primary key makes them, a saved location that a crop uses is still in the table
  after the operation, whichever id was asked for.
\<close>

theorem delete_location_only_when_unused:
  "(case fetchone (filter (\<lambda>l. location_id l = lid) (sale_locations db)) of
      None \<Rightarrow> delete_location (Some db) lid = (DL_not_found, Some db)
    | Some loc \<Rightarrow>
        (if filter (\<lambda>r. sale_location r = Some (location_name loc)) (crop_storage db) \<noteq> []
         then delete_location (Some db) lid
                = (DL_in_use (location_name loc)
                     (length (filter (\<lambda>r. sale_location r = Some (location_name loc))
                                (crop_storage db))),
                   Some db)
         else delete_location (Some db) lid
                = (DL_deleted (location_name loc),
                   Some (db\<lparr>sale_locations :=
                              filter (\<lambda>l. location_id l \<noteq> lid) (sale_locations db)\<rparr>))))
   \<and> (distinct (map location_id (sale_locations db))
        \<longrightarrow> (\<forall>l \<in> set (sale_locations db).
               (\<exists>r \<in> set (crop_storage db). sale_location r = Some (location_name l))
               \<longrightarrow> (\<exists>db'. snd (delete_location (Some db) lid) = Some db'
                          \<and> l \<in> set (sale_locations db'))))"
proof (intro conjI impI ballI)
  show "case fetchone (filter (\<lambda>l. location_id l = lid) (sale_locations db)) of
      None \<Rightarrow> delete_location (Some db) lid = (DL_not_found, Some db)
    | Some loc \<Rightarrow>
        (if filter (\<lambda>r. sale_location r = Some (location_name loc)) (crop_storage db) \<noteq> []
         then delete_location (Some db) lid
                = (DL_in_use (location_name loc)
                     (length (filter (\<lambda>r. sale_location r = Some (location_name loc))
                                (crop_storage db))),
                   Some db)
         else delete_location (Some db) lid
                = (DL_deleted (location_name loc),
                   Some (db\<lparr>sale_locations :=
                              filter (\<lambda>l. location_id l \<noteq> lid) (sale_locations db)\<rparr>)))"
    by (simp add: delete_location_def Let_def split: option.splits)
next
  fix l
  assume d: "distinct (map location_id (sale_locations db))"
    and l: "l \<in> set (sale_locations db)"
    and used: "\<exists>r \<in> set (crop_storage db). sale_location r = Some (location_name l)"
  from used have ne: "filter (\<lambda>r. sale_location r = Some (location_name l)) (crop_storage db) \<noteq> []"
    by (auto simp: filter_empty_conv)
  show "\<exists>db'. snd (delete_location (Some db) lid) = Some db' \<and> l \<in> set (sale_locations db')"
  proof (cases "location_id l = lid")
    case True
    from d l True have "filter (\<lambda>x. location_id x = lid) (sale_locations db) = [l]"
      using filter_key_unique [of location_id "sale_locations db" l] by simp
    with ne l show ?thesis
      by (simp add: delete_location_def Let_def)
  next
    case False
    with l show ?thesis
      by (auto simp: delete_location_def Let_def split: option.splits)
  qed
qed

text \<open>
  The Grain Elevator is the sale location of both crops and stays; the Rice Mill is used
  by none and goes.
\<close>

theorem delete_location_only_when_unused_witness:
  "delete_location (Some example_db) 1 = (DL_in_use ''Grain Elevator'' 2, Some example_db)
   \<and> (\<exists>db'. delete_location (Some example_db) 2 = (DL_deleted ''Rice Mill'', Some db')
             \<and> map location_name (sale_locations db') = [''Grain Elevator'']
             \<and> crop_storage db' = crop_storage example_db)"
proof -
  from delete_location_only_when_unused [where lid = 1 and db = example_db, THEN conjunct1]
  have 1: "delete_location (Some example_db) 1
             = (DL_in_use ''Grain Elevator'' 2, Some example_db)"
    by (simp add: example_db_def)
  from delete_location_only_when_unused [where lid = 2 and db = example_db, THEN conjunct1]
  have 2: "\<exists>db'. delete_location (Some example_db) 2 = (DL_deleted ''Rice Mill'', Some db')
             \<and> map location_name (sale_locations db') = [''Grain Elevator'']
             \<and> crop_storage db' = crop_storage example_db"
    by (simp add: example_db_def)
  from 1 2 show ?thesis by (rule conjI)
qed

end
